theory Spec2Isabelle
  imports Complex_Main "HOL-Library.Multiset"
begin

section \<open>Python floats\<close>

subsection \<open>Rounding to binary64\<close>

text \<open>
  A Python float is an IEEE 754 binary64 number. Every arithmetic operation returns the
  exact result rounded to the nearest representable number, ties to the one with an even
  significand. \<open>round64\<close> is that rounding on the reals: \<open>binade x\<close> is the exponent of
  the last place of \<open>x\<close> (53 significant bits, but never below the exponent -1074 of the
  subnormal numbers), and \<open>x\<close> is rounded to a multiple of \<open>2 ^ binade x\<close>. The
  exponent is not bounded above here; overflow is decided in \<open>to_float\<close>.
\<close>

definition round_half_even :: "real \<Rightarrow> int" where
  "round_half_even y =
     (let f = \<lfloor>y\<rfloor>; d = y - of_int f
      in if d < 1 / 2 then f else if d > 1 / 2 then f + 1
         else if even f then f else f + 1)"

definition binade :: "real \<Rightarrow> int" where
  "binade x = max (\<lfloor>log 2 \<bar>x\<bar>\<rfloor> - 52) (- 1074)"

definition round64 :: "real \<Rightarrow> real" where
  "round64 x =
     (if x = 0 then 0
      else sgn x * of_int (round_half_even (\<bar>x\<bar> / 2 powi binade x)) * 2 powi binade x)"

subsection \<open>Values and operations\<close>

text \<open>
  A float is a finite number, an infinity or a NaN (the sign of zero and the payload of
  a NaN are not distinguished: no operation used here observes them). A result whose
  rounding reaches \<open>2 ^ 1024\<close> overflows to an infinity. Subtraction, multiplication,
  comparison and \<open>abs\<close> never raise in Python; they return infinities and NaNs, as below.
\<close>

datatype pyfloat = Finite real | PosInf | NegInf | NaN

definition to_float :: "real \<Rightarrow> pyfloat" where
  "to_float x =
     (let r = round64 x
      in if \<bar>r\<bar> < 2 ^ 1024 then Finite r else if 0 < r then PosInf else NegInf)"

fun fsub :: "pyfloat \<Rightarrow> pyfloat \<Rightarrow> pyfloat" where
  "fsub (Finite a) (Finite b) = to_float (a - b)"
| "fsub NaN _ = NaN"
| "fsub _ NaN = NaN"
| "fsub PosInf PosInf = NaN"
| "fsub NegInf NegInf = NaN"
| "fsub PosInf _ = PosInf"
| "fsub NegInf _ = NegInf"
| "fsub (Finite a) PosInf = NegInf"
| "fsub (Finite a) NegInf = PosInf"

fun fmul :: "pyfloat \<Rightarrow> pyfloat \<Rightarrow> pyfloat" where
  "fmul (Finite a) (Finite b) = to_float (a * b)"
| "fmul NaN _ = NaN"
| "fmul _ NaN = NaN"
| "fmul (Finite a) PosInf = (if a = 0 then NaN else if 0 < a then PosInf else NegInf)"
| "fmul (Finite a) NegInf = (if a = 0 then NaN else if 0 < a then NegInf else PosInf)"
| "fmul PosInf (Finite b) = (if b = 0 then NaN else if 0 < b then PosInf else NegInf)"
| "fmul NegInf (Finite b) = (if b = 0 then NaN else if 0 < b then NegInf else PosInf)"
| "fmul PosInf PosInf = PosInf"
| "fmul NegInf NegInf = PosInf"
| "fmul PosInf NegInf = NegInf"
| "fmul NegInf PosInf = NegInf"

text \<open>\<open>flt a b\<close> is Python's \<open>a < b\<close>: false whenever a NaN is involved.\<close>

fun flt :: "pyfloat \<Rightarrow> pyfloat \<Rightarrow> bool" where
  "flt (Finite a) (Finite b) = (a < b)"
| "flt NaN _ = False"
| "flt _ NaN = False"
| "flt _ NegInf = False"
| "flt PosInf _ = False"
| "flt NegInf _ = True"
| "flt (Finite a) PosInf = True"

fun fabs :: "pyfloat \<Rightarrow> pyfloat" where
  "fabs (Finite a) = Finite \<bar>a\<bar>"
| "fabs PosInf = PosInf"
| "fabs NegInf = PosInf"
| "fabs NaN = NaN"

text \<open>
  The builtin \<open>min\<close> of three arguments keeps the first one and replaces it by a later
  one only when that is smaller.
\<close>

definition py_min3 :: "pyfloat \<Rightarrow> pyfloat \<Rightarrow> pyfloat \<Rightarrow> pyfloat" where
  "py_min3 a b c =
     (let m = a;
          m = (if flt b m then b else m);
          m = (if flt c m then c else m)
      in m)"

section \<open>Grid dispatch: \<open>optimize_grid\<close> (README.md, lines 114--132)\<close>

text \<open>
  The function takes \<open>supply\<close>, \<open>demand\<close> and \<open>battery_soc\<close> (a fraction of the capacity)
  and reads three global names that no source file binds: \<open>battery_charge_capacity\<close>,
  \<open>battery_discharge_capacity\<close> and \<open>battery_capacity\<close>. The globals are a record of
  optional floats; reading an unbound name raises \<open>NameError\<close>, in the order in which
  Python evaluates the arguments of \<open>min\<close>. The comparison \<open>surplus > 0\<close> is
  \<open>0 < surplus\<close>; the literals \<open>0.8\<close> and \<open>0.2\<close> are the floats nearest to 8/10 and 2/10.
  The returned dict has different keys in the two branches, so it is an association
  list in the order of the dict literal.
\<close>

datatype py_error = NameError string

record globals =
  battery_charge_capacity :: "pyfloat option"
  battery_discharge_capacity :: "pyfloat option"
  battery_capacity :: "pyfloat option"

type_synonym dict = "(string \<times> pyfloat) list"

definition optimize_grid :: "globals \<Rightarrow> pyfloat \<Rightarrow> pyfloat \<Rightarrow> pyfloat \<Rightarrow> py_error + dict" where
  "optimize_grid g supply demand battery_soc =
     (let surplus = fsub supply demand in
      if flt (Finite 0) surplus then
        (case battery_charge_capacity g of
           None \<Rightarrow> Inl (NameError ''battery_charge_capacity'')
         | Some charge_capacity \<Rightarrow>
        (case battery_capacity g of
           None \<Rightarrow> Inl (NameError ''battery_capacity'')
         | Some capacity \<Rightarrow>
             (let charge_amount = py_min3 surplus charge_capacity
                    (fmul (fsub (to_float (8 / 10)) battery_soc) capacity);
                  export_amount = fsub surplus charge_amount
              in Inr [(''battery_charge'', charge_amount),
                      (''grid_export'', export_amount)])))
      else
        (let deficit = fabs surplus in
         case battery_discharge_capacity g of
           None \<Rightarrow> Inl (NameError ''battery_discharge_capacity'')
         | Some discharge_capacity \<Rightarrow>
        (case battery_capacity g of
           None \<Rightarrow> Inl (NameError ''battery_capacity'')
         | Some capacity \<Rightarrow>
             (let discharge_amount = py_min3 deficit discharge_capacity
                    (fmul (fsub battery_soc (to_float (2 / 10))) capacity);
                  import_amount = fsub deficit discharge_amount
              in Inr [(''battery_discharge'', discharge_amount),
                      (''grid_import'', import_amount)]))))"

text \<open>
  Reading a flow out of the returned dict as a real number: a key the branch did not
  write is a flow of zero (a charging step discharges nothing and imports nothing); an
  infinite or NaN entry has no real value.
\<close>

definition flow :: "dict \<Rightarrow> string \<Rightarrow> real option" where
  "flow d k =
     (case map_of d k of
        None \<Rightarrow> Some 0
      | Some (Finite v) \<Rightarrow> Some v
      | Some _ \<Rightarrow> None)"

definition result_flow :: "py_error + dict \<Rightarrow> string \<Rightarrow> real option" where
  "result_flow r k = (case r of Inl e \<Rightarrow> None | Inr d \<Rightarrow> flow d k)"


text \<open>
  The two headrooms as the code computes them on finite floats that do not overflow:
  \<open>(0.8 - battery_soc) * battery_capacity\<close> and \<open>(battery_soc - 0.2) * battery_capacity\<close>,
  each operation rounded.
\<close>

definition charge_headroom :: "real \<Rightarrow> real \<Rightarrow> real" where
  "charge_headroom soc cap = round64 (round64 (round64 (8 / 10) - soc) * cap)"

definition discharge_headroom :: "real \<Rightarrow> real \<Rightarrow> real" where
  "discharge_headroom soc cap = round64 (round64 (soc - round64 (2 / 10)) * cap)"

text \<open>
  The spec's words for the applied battery power, to be compared with what
  \<open>optimize_grid\<close> computes: \<open>min(desired_mw, max_power_mw, headroom_mwh / dt_hours)\<close>,
  floored at 0.
\<close>

definition spec_applied_power :: "real \<Rightarrow> real \<Rightarrow> real \<Rightarrow> real \<Rightarrow> real" where
  "spec_applied_power desired_mw max_power_mw headroom_mwh dt_hours =
     max 0 (min desired_mw (min max_power_mw (headroom_mwh / dt_hours)))"

text \<open>
  Inputs of ordinary size: the three limits, supply and demand of magnitude at most
  \<open>10 ^ 9\<close> (MW or MWh), the state of charge of magnitude at most 1000. All three names are
  bound to finite floats in \<open>bound_globals\<close>.
\<close>

definition within_range :: "real \<Rightarrow> real \<Rightarrow> real \<Rightarrow> real \<Rightarrow> real \<Rightarrow> real \<Rightarrow> bool" where
  "within_range cc dc cap supply demand soc =
     (\<bar>cc\<bar> \<le> 10 ^ 9 \<and> \<bar>dc\<bar> \<le> 10 ^ 9 \<and> \<bar>cap\<bar> \<le> 10 ^ 9 \<and>
      \<bar>supply\<bar> \<le> 10 ^ 9 \<and> \<bar>demand\<bar> \<le> 10 ^ 9 \<and> \<bar>soc\<bar> \<le> 1000)"

definition bound_globals :: "real \<Rightarrow> real \<Rightarrow> real \<Rightarrow> globals" where
  "bound_globals cc dc cap =
     \<lparr> battery_charge_capacity = Some (Finite cc),
       battery_discharge_capacity = Some (Finite dc),
       battery_capacity = Some (Finite cap) \<rparr>"

section \<open>Dashboard page: records, request and mock data (part_000)\<close>

subsection \<open>\<open>SimulationDataPoint\<close> (lines 12--27)\<close>

text \<open>
  JavaScript numbers are modelled as reals, the hour index as a natural number. The
  \<open>datetime\<close> field holds the instant in epoch milliseconds whose ISO-8601 text the
  source stores (\<open>toISOString\<close> of a valid date is an injective rendering of it).
\<close>

record SimulationDataPoint =
  hour :: nat
  datetime :: int
  simulated_supply_mw :: real
  simulated_demand_mw :: real
  net_balance_mw :: real
  battery_charge_mwh :: real
  battery_percent :: real
  to_battery_mw :: real
  from_battery_mw :: real
  to_grid_mw :: real
  from_grid_mw :: real
  status :: string
  wind_speed :: real
  wind_direction :: real

text \<open>
  A record value as the JavaScript object it is: one property per member of the
  interface, in declaration order.
\<close>

datatype jsvalue = JNumber real | JString string | JIsoDate int

definition toObject :: "SimulationDataPoint \<Rightarrow> (string \<times> jsvalue) list" where
  "toObject p =
     [(''hour'', JNumber (real (hour p))),
      (''datetime'', JIsoDate (datetime p)),
      (''simulated_supply_mw'', JNumber (simulated_supply_mw p)),
      (''simulated_demand_mw'', JNumber (simulated_demand_mw p)),
      (''net_balance_mw'', JNumber (net_balance_mw p)),
      (''battery_charge_mwh'', JNumber (battery_charge_mwh p)),
      (''battery_percent'', JNumber (battery_percent p)),
      (''to_battery_mw'', JNumber (to_battery_mw p)),
      (''from_battery_mw'', JNumber (from_battery_mw p)),
      (''to_grid_mw'', JNumber (to_grid_mw p)),
      (''from_grid_mw'', JNumber (from_grid_mw p)),
      (''status'', JString (status p)),
      (''wind_speed'', JNumber (wind_speed p)),
      (''wind_direction'', JNumber (wind_direction p))]"

text \<open>
  The spec's words for the per-record fields of the external interface (section 6).
\<close>

definition spec_record_fields :: "string list" where
  "spec_record_fields =
     [''hour'', ''datetime'', ''simulated_supply_mw'', ''simulated_demand_mw'',
      ''net_balance_mw'', ''battery_charge_mwh'', ''battery_percent'', ''to_battery_mw'',
      ''from_battery_mw'', ''to_grid_mw'', ''from_grid_mw'', ''status'', ''wind_speed'',
      ''wind_direction'']"

subsection \<open>The request body of \<open>runSimulation\<close> (lines 125--147)\<close>

datatype mode = LIVE | MANUAL | CUSTOM

record faults =
  turbineFailure :: bool
  multipleTurbineFailure :: bool
  gridIssue :: bool
  batteryFault :: bool

text \<open>
  \<open>DateRange\<close>: each end is a \<open>Date\<close> (epoch milliseconds) or \<open>undefined\<close>.
\<close>

record DateRange =
  range_from :: "int option"
  range_to :: "int option"

record requestBody =
  use_live_data :: bool
  turbine_count :: real
  turbine_availability :: real
  battery_capacity_mwh :: real
  initial_battery_mwh :: real
  community_demand_percent :: real
  community_base_load_mw :: real
  battery_max_charge_mw :: real
  battery_max_discharge_mw :: real
  low_wind_threshold :: real
  high_wind_threshold :: real
  battery_low_threshold :: real
  battery_high_threshold :: real
  date_range :: "(int \<times> int) option"

text \<open>
  The object literal of lines 125--147, from the component state it reads. The spread
  at the end adds \<open>date_range\<close> only in CUSTOM mode with both ends defined.
\<close>

definition build_requestBody ::
  "mode \<Rightarrow> real \<Rightarrow> real \<Rightarrow> real \<Rightarrow> faults \<Rightarrow> DateRange \<Rightarrow> requestBody" where
  "build_requestBody md turbineCount turbineAvailability batteryCapacity fl dateRange =
     \<lparr> use_live_data = (md = LIVE),
       turbine_count = turbineCount,
       turbine_availability =
         (if multipleTurbineFailure fl then 0.25
          else if turbineFailure fl then 0.5 else turbineAvailability),
       battery_capacity_mwh =
         (if batteryFault fl then batteryCapacity * 0.5 else batteryCapacity),
       initial_battery_mwh = batteryCapacity / 2,
       community_demand_percent = 0.01,
       community_base_load_mw = 75.0,
       battery_max_charge_mw = 50.0,
       battery_max_discharge_mw = 100.0,
       low_wind_threshold = 3.0,
       high_wind_threshold = 25.0,
       battery_low_threshold = 0.2,
       battery_high_threshold = 0.8,
       date_range =
         (if md = CUSTOM then
            (case (range_from dateRange, range_to dateRange) of
               (Some f, Some t) \<Rightarrow> Some (f, t)
             | _ \<Rightarrow> None)
          else None) \<rparr>"

subsection \<open>The LIVE buffer update (lines 166--189)\<close>

text \<open>
  \<open>Array.prototype.slice(start)\<close> with one argument: a negative start counts from the
  end, and both are clamped to the array.
\<close>

definition slice_from :: "int \<Rightarrow> 'a list \<Rightarrow> 'a list" where
  "slice_from start xs =
     (let len = int (length xs);
          k = (if start < 0 then max (len + start) 0 else min start len)
      in drop (nat k) xs)"

text \<open>
  What \<open>setSimulationData\<close> leaves in the buffer after a response. \<open>simulationData\<close> is
  the state the closure saw, \<open>prev\<close> the state the updater receives, and
  \<open>simulation_data\<close> the field of the response (absent or a list). A response without
  records leaves the buffer as it was.
\<close>

definition update_simulationData ::
  "mode \<Rightarrow> 'a list \<Rightarrow> 'a list option \<Rightarrow> 'a list \<Rightarrow> 'a list" where
  "update_simulationData md simulationData simulation_data prev =
     (case simulation_data of
        None \<Rightarrow> prev
      | Some ds \<Rightarrow>
          if length ds > 0 then
            (if md = LIVE \<and> length simulationData > 0 then
               (let newDataPoint = ds ! (length ds - 1)
                in slice_from (- 23) prev @ [newDataPoint])
             else ds)
          else prev)"

subsection \<open>The mock simulation sequence (lines 209--240)\<close>

text \<open>
  Each record reads the clock once (\<open>Date.now()\<close>) and draws five pseudo-random numbers
  (\<open>Math.random()\<close>, each in the interval from 0 inclusive to 1 exclusive), in this
  order: for the supply, the battery level, the demand of the record, the wind speed
  and the wind direction. They are the explicit inputs of the model.
\<close>

record draws =
  now :: int
  rnd_supply :: real
  rnd_battery :: real
  rnd_demand :: real
  rnd_wind_speed :: real
  rnd_wind_direction :: real

definition valid_draws :: "draws \<Rightarrow> bool" where
  "valid_draws e =
     (0 \<le> rnd_supply e \<and> rnd_supply e < 1 \<and>
      0 \<le> rnd_battery e \<and> rnd_battery e < 1 \<and>
      0 \<le> rnd_demand e \<and> rnd_demand e < 1 \<and>
      0 \<le> rnd_wind_speed e \<and> rnd_wind_speed e < 1 \<and>
      0 \<le> rnd_wind_direction e \<and> rnd_wind_direction e < 1)"

definition base_demand :: "nat \<Rightarrow> real" where
  "base_demand hourOfDay =
     (if hourOfDay \<ge> 7 \<and> hourOfDay \<le> 9 then 95
      else if hourOfDay \<ge> 12 \<and> hourOfDay \<le> 14 then 85
      else if hourOfDay \<ge> 17 \<and> hourOfDay \<le> 20 then 110
      else if hourOfDay \<ge> 22 \<or> hourOfDay \<le> 5 then 60
      else 70)"

definition mockDataPoint :: "draws \<Rightarrow> nat \<Rightarrow> SimulationDataPoint" where
  "mockDataPoint e hr =
     (let hourOfDay = hr;
          demand = base_demand hourOfDay;
          supply = 50 + (sin (real hourOfDay * pi / 12) * 20) + rnd_supply e * 15;
          netBalance = supply - demand;
          batteryLevel = 30 + (sin (real hourOfDay * pi / 12) * 20) + rnd_battery e * 10
      in \<lparr> hour = hourOfDay,
           datetime = now e + int hr * 3600000,
           simulated_supply_mw = max 0 supply,
           simulated_demand_mw = max 0 (demand + rnd_demand e * 10),
           net_balance_mw = netBalance,
           battery_charge_mwh = batteryLevel * 3,
           battery_percent = max 10 (min 95 batteryLevel),
           to_battery_mw = (if netBalance > 0 then min netBalance 20 else 0),
           from_battery_mw = (if netBalance < 0 then min (abs netBalance) 25 else 0),
           to_grid_mw = (if netBalance > 0 then max 0 (netBalance - 5) else 0),
           from_grid_mw = (if netBalance < 0 then max 0 (abs netBalance - 5) else 0),
           status = (if netBalance > 5 then ''Surplus''
                     else if netBalance < - 5 then ''Deficit'' else ''Balanced''),
           wind_speed = 5 + sin (real hourOfDay * pi / 12) * 5 + rnd_wind_speed e * 3,
           wind_direction =
             180 + sin (real hourOfDay * pi / 6) * 60 + rnd_wind_direction e * 30 \<rparr>)"

definition mockSimulationData :: "(nat \<Rightarrow> draws) \<Rightarrow> SimulationDataPoint list" where
  "mockSimulationData env = map (\<lambda>hr. mockDataPoint (env hr) hr) [0..<24]"


section \<open>Dashboard header: alert groups (part_002, lines 43--45)\<close>

record Alert =
  level :: string
  message :: string
  timestamp :: string

definition criticalAlerts :: "Alert list \<Rightarrow> Alert list" where
  "criticalAlerts alerts = filter (\<lambda>a. level a = ''critical'') alerts"

definition warningAlerts :: "Alert list \<Rightarrow> Alert list" where
  "warningAlerts alerts = filter (\<lambda>a. level a = ''warning'') alerts"

definition infoAlerts :: "Alert list \<Rightarrow> Alert list" where
  "infoAlerts alerts =
     filter (\<lambda>a. level a = ''info'' \<or> level a \<notin> set [''critical'', ''warning''])
       alerts"

section \<open>Sample inputs\<close>

text \<open>
  Three fixed sources of draws, the same at every hour: every draw 0, every draw 1/2,
  and every draw 0 but the one for the demand (all exactly representable as
  floating-point numbers).
\<close>

definition zero_draws :: "nat \<Rightarrow> draws" where
  "zero_draws hr = \<lparr> now = 0, rnd_supply = 0, rnd_battery = 0, rnd_demand = 0,
                      rnd_wind_speed = 0, rnd_wind_direction = 0 \<rparr>"

definition half_draws :: "nat \<Rightarrow> draws" where
  "half_draws hr = \<lparr> now = 0, rnd_supply = 1 / 2, rnd_battery = 1 / 2, rnd_demand = 1 / 2,
                      rnd_wind_speed = 1 / 2, rnd_wind_direction = 1 / 2 \<rparr>"

definition demand_draws :: "nat \<Rightarrow> draws" where
  "demand_draws hr = \<lparr> now = 0, rnd_supply = 0, rnd_battery = 0, rnd_demand = 1 / 2,
                        rnd_wind_speed = 0, rnd_wind_direction = 0 \<rparr>"

text \<open>
  Four alerts, one per recognised level and one with a level the header does not know.
\<close>

definition sample_alerts :: "Alert list" where
  "sample_alerts =
     [\<lparr> level = ''critical'', message = ''battery low'', timestamp = ''t0'' \<rparr>,
      \<lparr> level = ''warning'', message = ''battery full'', timestamp = ''t1'' \<rparr>,
      \<lparr> level = ''info'', message = ''grid off'', timestamp = ''t2'' \<rparr>,
      \<lparr> level = ''debug'', message = ''trace'', timestamp = ''t3'' \<rparr>]"

section \<open>Auxiliary facts\<close>

subsection \<open>Rounding\<close>

text \<open>Rounding to an integer moves a number by at most one half.\<close>

lemma round_half_even_err: "\<bar>of_int (round_half_even y) - y\<bar> \<le> 1 / 2"
  unfolding round_half_even_def Let_def by (auto simp: abs_if) linarith+

text \<open>
  In the normal range the exponent is read off the binade of the argument; this is how
  \<open>round64\<close> is evaluated on a concrete number.
\<close>

lemma binade_normal:
  assumes "2 powi n \<le> \<bar>x\<bar>" "\<bar>x\<bar> < 2 powi (n + 1)" "- 1022 \<le> n"
  shows "binade x = n - 52"
proof -
  have pos: "0 < \<bar>x\<bar>" using assms(1) by (smt (verit) zero_less_power_int)
  have e0: "(2::real) powr real_of_int n = 2 powi n"
    by (simp add: powr_real_of_int')
  have e1: "(2::real) powr (real_of_int n + 1) = 2 powi (n + 1)"
    using powr_real_of_int' [of 2 "n + 1"] by simp
  have "2 powr real_of_int n \<le> \<bar>x\<bar> \<and> \<bar>x\<bar> < 2 powr (real_of_int n + 1)"
    unfolding e0 e1 using assms(1,2) by (rule conjI)
  then have "\<lfloor>log 2 \<bar>x\<bar>\<rfloor> = n"
    using floor_log_eq_powr_iff [OF pos, of 2 n] by simp
  then show ?thesis using assms(3) by (simp add: binade_def)
qed

lemma round64_normal:
  assumes "2 powi n \<le> \<bar>x\<bar>" "\<bar>x\<bar> < 2 powi (n + 1)" "- 1022 \<le> n"
  shows "round64 x = sgn x * of_int (round_half_even (\<bar>x\<bar> / 2 powi (n - 52))) * 2 powi (n - 52)"
proof -
  have "x \<noteq> 0" using assms(1) by (smt (verit) zero_less_power_int abs_zero)
  then show ?thesis by (simp add: round64_def binade_normal [OF assms])
qed

lemma binade_le:
  assumes "x \<noteq> 0"
  shows "2 powi binade x \<le> max (\<bar>x\<bar> / 2 ^ 52) (1 / 2 ^ 1074)"
proof -
  have pos: "0 < \<bar>x\<bar>" using assms by simp
  have "2 powr (of_int \<lfloor>log 2 \<bar>x\<bar>\<rfloor>) \<le> 2 powr (log 2 \<bar>x\<bar>)"
    by (intro powr_mono) simp_all
  then have a: "2 powi \<lfloor>log 2 \<bar>x\<bar>\<rfloor> \<le> \<bar>x\<bar>"
    using pos by (simp add: powr_real_of_int')
  show ?thesis
  proof (cases "\<lfloor>log 2 \<bar>x\<bar>\<rfloor> - 52 \<ge> - 1074")
    case True
    then have "binade x = \<lfloor>log 2 \<bar>x\<bar>\<rfloor> - 52" by (simp add: binade_def)
    then have "(2::real) powi binade x = 2 powi \<lfloor>log 2 \<bar>x\<bar>\<rfloor> / 2 ^ 52"
      by (simp add: power_int_diff)
    also have "\<dots> \<le> \<bar>x\<bar> / 2 ^ 52" using a by (simp add: divide_right_mono)
    finally show ?thesis by simp
  next
    case False
    then have "binade x = - 1074" by (simp add: binade_def)
    then have "(2::real) powi binade x = 1 / 2 ^ 1074" by (simp add: power_int_minus_divide)
    then show ?thesis by simp
  qed
qed

text \<open>
  The rounding error is at most half a unit in the last place: a relative error of
  \<open>1 / 2 ^ 53\<close>, or \<open>1 / 2 ^ 1075\<close> among the subnormal numbers.
\<close>

lemma round64_err_binade: "\<bar>round64 x - x\<bar> \<le> 2 powi binade x / 2"
proof (cases "x = 0")
  case True then show ?thesis by (simp add: round64_def)
next
  case False
  let ?p = "2 powi binade x :: real"
  let ?y = "\<bar>x\<bar> / ?p"
  have p: "0 < ?p" by simp
  have x: "x = sgn x * ?y * ?p" using p by (simp add: sgn_real_def abs_if)
  have "round64 x - x = sgn x * (of_int (round_half_even ?y) - ?y) * ?p"
    using False p by (simp add: round64_def algebra_simps sgn_real_def abs_if)
  then have "\<bar>round64 x - x\<bar> = \<bar>of_int (round_half_even ?y) - ?y\<bar> * ?p"
    using False p by (simp add: abs_mult sgn_real_def)
  also have "\<dots> \<le> 1 / 2 * ?p"
    by (intro mult_right_mono round_half_even_err) simp
  finally show ?thesis by simp
qed

lemma round64_err: "\<bar>round64 x - x\<bar> \<le> \<bar>x\<bar> / 2 ^ 53 + 1 / 2 ^ 1075"
proof (cases "x = 0")
  case True then show ?thesis by (simp add: round64_def)
next
  case False
  have "\<bar>round64 x - x\<bar> \<le> 2 powi binade x / 2" by (rule round64_err_binade)
  also have "\<dots> \<le> max (\<bar>x\<bar> / 2 ^ 52) (1 / 2 ^ 1074) / 2"
    using binade_le [OF False] by simp
  also have "\<dots> \<le> \<bar>x\<bar> / 2 ^ 53 + 1 / 2 ^ 1075"
    by (simp add: max_def)
  finally show ?thesis .
qed

lemma round64_abs_le: "\<bar>round64 x\<bar> \<le> 2 * \<bar>x\<bar> + 1"
proof -
  have "\<bar>round64 x - x\<bar> \<le> \<bar>x\<bar> / 2 ^ 53 + 1 / 2 ^ 1075" by (rule round64_err)
  moreover have "\<bar>x\<bar> / 2 ^ 53 \<le> \<bar>x\<bar>" by (simp add: divide_le_eq)
  moreover have "(1::real) / 2 ^ 1075 \<le> 1" by simp
  ultimately show ?thesis by linarith
qed


lemma binade_minus: "binade (- x) = binade x"
  by (simp add: binade_def)

lemma round64_minus: "round64 (- x) = - round64 x"
  by (simp add: round64_def binade_minus sgn_real_def)

lemma round64_0: "round64 0 = 0"
  by (simp add: round64_def)

text \<open>The roundings met when the dispatch is run on the inputs used below.\<close>

lemma round64_0_2: "round64 (1 / 5) = 3602879701896397 / 18014398509481984"
  by (subst round64_normal [where n = "- 3"]) (simp_all add: round_half_even_def)

lemma round64_0_8: "round64 (4 / 5) = 3602879701896397 / 4503599627370496"
  by (subst round64_normal [where n = "- 1"]) (simp_all add: round_half_even_def)

lemma round64_0_9: "round64 (9 / 10) = 8106479329266893 / 9007199254740992"
  by (subst round64_normal [where n = "- 1"]) (simp_all add: round_half_even_def)

lemma round64_60: "round64 60 = 60"
  by (subst round64_normal [where n = 5]) (simp_all add: round_half_even_def)

lemma round64_30: "round64 30 = 30"
  by (subst round64_normal [where n = 4]) (simp_all add: round_half_even_def)

lemma round64_B1: "round64 (900719925474099 / 18014398509481984) = 900719925474099 / 18014398509481984"
  by (subst round64_normal [where n = "- 5"]) (simp_all add: round_half_even_def)

lemma round64_B2: "round64 (67553994410557425 / 4503599627370496) = 4222124650659839 / 281474976710656"
  by (subst round64_normal [where n = 3]) (simp_all add: round_half_even_def)

lemma round64_B3: "round64 (12666373951979521 / 281474976710656) = 45"
  by (subst round64_normal [where n = 5]) (simp_all add: round_half_even_def)

lemma round64_C1: "round64 (900719925474099 / 9007199254740992) = 900719925474099 / 9007199254740992"
  by (subst round64_normal [where n = "- 4"]) (simp_all add: round_half_even_def)

lemma round64_C2: "round64 (67553994410557425 / 2251799813685248) = 4222124650659839 / 140737488355328"
  by (subst round64_normal [where n = 4]) (simp_all add: round_half_even_def)

lemma round64_C3: "round64 (8444249301319679 / 140737488355328) = 8444249301319679 / 140737488355328"
  by (subst round64_normal [where n = 5]) (simp_all add: round_half_even_def)


lemma round64_D2: "round64 (1351079888211149 / 4503599627370496) = 1351079888211149 / 4503599627370496"
  by (subst round64_normal [where n = "- 2"]) (simp_all add: round_half_even_def)

lemma round64_D3: "round64 (101330991615836175 / 1125899906842624) = 6333186975989761 / 70368744177664"
  by (subst round64_normal [where n = 6]) (simp_all add: round_half_even_def)


subsection \<open>Floats that stay finite\<close>

lemma to_float_finite:
  assumes "\<bar>x\<bar> \<le> 2 ^ 52"
  shows "to_float x = Finite (round64 x)"
proof -
  have "\<bar>round64 x\<bar> \<le> 2 * \<bar>x\<bar> + 1" by (rule round64_abs_le)
  then have "\<bar>round64 x\<bar> \<le> 2 * 2 ^ 52 + 1" using assms by linarith
  moreover have "(2 * 2 ^ 52 + 1 :: real) < 2 ^ 1024" by simp
  ultimately have "\<bar>round64 x\<bar> < 2 ^ 1024" by linarith
  then show ?thesis by (simp add: to_float_def Let_def)
qed

lemma py_min3_finite:
  "py_min3 (Finite a) (Finite b) (Finite c) = Finite (min a (min b c))"
  by (simp add: py_min3_def Let_def min_def)

lemma abs_min3_le:
  fixes a b c m :: real
  assumes "\<bar>a\<bar> \<le> m" "\<bar>b\<bar> \<le> m" "\<bar>c\<bar> \<le> m"
  shows "\<bar>min a (min b c)\<bar> \<le> m"
  using assms by (auto simp: min_def)

lemma abs_diff_le:
  fixes a b m :: real
  assumes "\<bar>a\<bar> \<le> m" "\<bar>b\<bar> \<le> m"
  shows "\<bar>a - b\<bar> \<le> 2 * m"
  using assms by linarith

lemma headroom_bounds:
  assumes "\<bar>soc\<bar> \<le> 1000" "\<bar>cap\<bar> \<le> 10 ^ 9" "\<bar>k\<bar> \<le> 1"
  shows "\<bar>round64 k - soc\<bar> \<le> 2 ^ 52"
    and "\<bar>soc - round64 k\<bar> \<le> 2 ^ 52"
    and "\<bar>round64 (round64 k - soc) * cap\<bar> \<le> 2 ^ 52"
    and "\<bar>round64 (soc - round64 k) * cap\<bar> \<le> 2 ^ 52"
    and "\<bar>round64 (round64 (round64 k - soc) * cap)\<bar> \<le> 5 * 10 ^ 12"
    and "\<bar>round64 (round64 (soc - round64 k) * cap)\<bar> \<le> 5 * 10 ^ 12"
proof -
  have k: "\<bar>round64 k\<bar> \<le> 3" using round64_abs_le [of k] assms(3) by linarith
  have d1: "\<bar>round64 k - soc\<bar> \<le> 1003" and d2: "\<bar>soc - round64 k\<bar> \<le> 1003"
    using k assms(1) by linarith+
  show "\<bar>round64 k - soc\<bar> \<le> 2 ^ 52" "\<bar>soc - round64 k\<bar> \<le> 2 ^ 52"
    using d1 d2 by simp_all
  have a1: "\<bar>round64 (round64 k - soc)\<bar> \<le> 2007"
    by (rule order_trans [OF round64_abs_le]) (use d1 in simp)
  have a2: "\<bar>round64 (soc - round64 k)\<bar> \<le> 2007"
    by (rule order_trans [OF round64_abs_le]) (use d2 in simp)
  have m1: "\<bar>round64 (round64 k - soc) * cap\<bar> \<le> 2007 * 10 ^ 9"
    unfolding abs_mult using a1 assms(2) by (intro mult_mono) simp_all
  have m2: "\<bar>round64 (soc - round64 k) * cap\<bar> \<le> 2007 * 10 ^ 9"
    unfolding abs_mult using a2 assms(2) by (intro mult_mono) simp_all
  show "\<bar>round64 (round64 k - soc) * cap\<bar> \<le> 2 ^ 52"
    "\<bar>round64 (soc - round64 k) * cap\<bar> \<le> 2 ^ 52"
    using m1 m2 by simp_all
  show "\<bar>round64 (round64 (round64 k - soc) * cap)\<bar> \<le> 5 * 10 ^ 12"
    by (rule order_trans [OF round64_abs_le]) (use m1 in simp)
  show "\<bar>round64 (round64 (soc - round64 k) * cap)\<bar> \<le> 5 * 10 ^ 12"
    by (rule order_trans [OF round64_abs_le]) (use m2 in simp)
qed

lemma desired_bounds:
  assumes "\<bar>supply\<bar> \<le> 10 ^ 9" "\<bar>demand\<bar> \<le> 10 ^ 9"
  shows "\<bar>supply - demand\<bar> \<le> 2 ^ 52"
    and "\<bar>round64 (supply - demand)\<bar> \<le> 5 * 10 ^ 12"
proof -
  have s: "\<bar>supply - demand\<bar> \<le> 2 * 10 ^ 9" using assms by linarith
  then show "\<bar>supply - demand\<bar> \<le> 2 ^ 52" by simp
  show "\<bar>round64 (supply - demand)\<bar> \<le> 5 * 10 ^ 12"
    by (rule order_trans [OF round64_abs_le]) (use s in simp)
qed



subsection \<open>The dispatch\<close>

text \<open>
  On inputs of ordinary size every intermediate value is finite, and the two branches
  return these dicts.
\<close>

lemma optimize_grid_surplus:
  assumes r: "within_range cc dc cap supply demand soc"
    and s: "0 < round64 (supply - demand)"
  shows "optimize_grid (bound_globals cc dc cap) (Finite supply) (Finite demand) (Finite soc) =
     Inr [(''battery_charge'',
            Finite (min (round64 (supply - demand)) (min cc (charge_headroom soc cap)))),
          (''grid_export'',
            Finite (round64 (round64 (supply - demand)
              - min (round64 (supply - demand)) (min cc (charge_headroom soc cap)))))]"
proof -
  let ?S = "round64 (supply - demand)"
  let ?H = "charge_headroom soc cap"
  let ?c = "min ?S (min cc ?H)"
  have b: "\<bar>cc\<bar> \<le> 10 ^ 9" "\<bar>cap\<bar> \<le> 10 ^ 9" "\<bar>supply\<bar> \<le> 10 ^ 9" "\<bar>demand\<bar> \<le> 10 ^ 9"
    "\<bar>soc\<bar> \<le> 1000"
    using r by (simp_all add: within_range_def)
  define k :: real where "k = 8 / 10"
  have k: "\<bar>k\<bar> \<le> 1" by (simp add: k_def)
  note hb = headroom_bounds [OF b(5) b(2) k]
  note db = desired_bounds [OF b(3) b(4)]
  note od = optimize_grid_def [of "bound_globals cc dc cap", folded k_def]
  have f1: "fsub (Finite supply) (Finite demand) = Finite ?S"
    by (simp add: to_float_finite [OF db(1)])
  have f2: "to_float k = Finite (round64 k)"
    by (rule to_float_finite) (use k in simp)
  have f3: "fsub (Finite (round64 k)) (Finite soc) = Finite (round64 (round64 k - soc))"
    by (simp add: to_float_finite [OF hb(1)])
  have f4: "fmul (Finite (round64 (round64 k - soc))) (Finite cap) = Finite ?H"
    unfolding charge_headroom_def k_def [symmetric] fmul.simps by (rule to_float_finite [OF hb(3)])
  have H: "\<bar>?H\<bar> \<le> 5 * 10 ^ 12" unfolding charge_headroom_def k_def [symmetric] by (rule hb(5))
  have cc: "\<bar>cc\<bar> \<le> 5 * 10 ^ 12" using b(1) by simp
  have c: "\<bar>?c\<bar> \<le> 5 * 10 ^ 12" by (rule abs_min3_le [OF db(2) cc H])
  have "\<bar>?S - ?c\<bar> \<le> 2 * (5 * 10 ^ 12)" by (rule abs_diff_le [OF db(2) c])
  then have e: "\<bar>?S - ?c\<bar> \<le> 2 ^ 52" by (rule order_trans) simp
  have f5: "fsub (Finite ?S) (Finite ?c) = Finite (round64 (?S - ?c))"
    by (simp add: to_float_finite [OF e])
  show ?thesis
    using s unfolding od Let_def by (simp only: bound_globals_def globals.simps option.simps flt.simps fabs.simps if_True if_False f1 f2 f3 f4 f5 py_min3_finite)
qed

lemma optimize_grid_deficit:
  assumes r: "within_range cc dc cap supply demand soc"
    and s: "\<not> 0 < round64 (supply - demand)"
  shows "optimize_grid (bound_globals cc dc cap) (Finite supply) (Finite demand) (Finite soc) =
     Inr [(''battery_discharge'',
            Finite (min \<bar>round64 (supply - demand)\<bar> (min dc (discharge_headroom soc cap)))),
          (''grid_import'',
            Finite (round64 (\<bar>round64 (supply - demand)\<bar>
              - min \<bar>round64 (supply - demand)\<bar> (min dc (discharge_headroom soc cap)))))]"
proof -
  let ?S = "round64 (supply - demand)"
  let ?H = "discharge_headroom soc cap"
  let ?c = "min \<bar>?S\<bar> (min dc ?H)"
  have b: "\<bar>dc\<bar> \<le> 10 ^ 9" "\<bar>cap\<bar> \<le> 10 ^ 9" "\<bar>supply\<bar> \<le> 10 ^ 9" "\<bar>demand\<bar> \<le> 10 ^ 9"
    "\<bar>soc\<bar> \<le> 1000"
    using r by (simp_all add: within_range_def)
  define k :: real where "k = 2 / 10"
  have k: "\<bar>k\<bar> \<le> 1" by (simp add: k_def)
  note hb = headroom_bounds [OF b(5) b(2) k]
  note db = desired_bounds [OF b(3) b(4)]
  note od = optimize_grid_def [of "bound_globals cc dc cap", folded k_def]
  have f1: "fsub (Finite supply) (Finite demand) = Finite ?S"
    by (simp add: to_float_finite [OF db(1)])
  have f2: "to_float k = Finite (round64 k)"
    by (rule to_float_finite) (use k in simp)
  have f3: "fsub (Finite soc) (Finite (round64 k)) = Finite (round64 (soc - round64 k))"
    by (simp add: to_float_finite [OF hb(2)])
  have f4: "fmul (Finite (round64 (soc - round64 k))) (Finite cap) = Finite ?H"
    unfolding discharge_headroom_def k_def [symmetric] fmul.simps by (rule to_float_finite [OF hb(4)])
  have H: "\<bar>?H\<bar> \<le> 5 * 10 ^ 12" unfolding discharge_headroom_def k_def [symmetric] by (rule hb(6))
  have dc: "\<bar>dc\<bar> \<le> 5 * 10 ^ 12" using b(1) by simp
  have S: "\<bar>\<bar>?S\<bar>\<bar> \<le> 5 * 10 ^ 12" unfolding abs_idempotent by (rule db(2))
  have c: "\<bar>?c\<bar> \<le> 5 * 10 ^ 12" by (rule abs_min3_le [OF S dc H])
  have "\<bar>\<bar>?S\<bar> - ?c\<bar> \<le> 2 * (5 * 10 ^ 12)" by (rule abs_diff_le [OF S c])
  then have e: "\<bar>\<bar>?S\<bar> - ?c\<bar> \<le> 2 ^ 52" by (rule order_trans) simp
  have f5: "fsub (Finite \<bar>?S\<bar>) (Finite ?c) = Finite (round64 (\<bar>?S\<bar> - ?c))"
    by (simp add: to_float_finite [OF e])
  show ?thesis
    using s unfolding od Let_def by (simp only: bound_globals_def globals.simps option.simps flt.simps fabs.simps if_True if_False f1 f2 f3 f4 f5 py_min3_finite)
qed

text \<open>No operation of the body raises: only an unbound name does.\<close>

lemma never_raises:
  assumes "battery_charge_capacity g \<noteq> None" "battery_discharge_capacity g \<noteq> None"
    "battery_capacity g \<noteq> None"
  shows "\<exists>d. optimize_grid g supply demand soc = Inr d"
  using assms by (auto simp: optimize_grid_def Let_def)

lemma raises_unbound:
  assumes "battery_capacity g = None"
  shows "\<exists>name. optimize_grid g supply demand soc = Inl (NameError name)"
  using assms by (auto simp: optimize_grid_def Let_def split: option.splits)

lemma flow_simps:
  "flow [] k = Some 0"
  "flow ((k', Finite v) # d) k = (if k' = k then Some v else flow d k)"
  by (simp_all add: flow_def)




text \<open>
  The computed headroom is within a thousandth of the exact
  \<open>0.8 * capacity - soc * capacity\<close> (and likewise for the discharge).
\<close>

lemma headroom_close:
  assumes soc: "\<bar>soc\<bar> \<le> 1000" and cap: "\<bar>cap\<bar> \<le> 10 ^ 9" and k: "\<bar>k\<bar> \<le> 1"
  shows "\<bar>round64 (round64 (round64 k - soc) * cap) - (k * cap - soc * cap)\<bar> \<le> 1 / 1000"
    and "\<bar>round64 (round64 (soc - round64 k) * cap) - (soc * cap - k * cap)\<bar> \<le> 1 / 1000"
proof -
  have t: "(1::real) / 2 ^ 1075 \<le> 1 / 2 ^ 53" by (simp add: divide_le_eq)
  have kr: "\<bar>round64 k\<bar> \<le> 3" using round64_abs_le [of k] k by linarith
  have e0: "\<bar>round64 k - k\<bar> \<le> 2 / 2 ^ 53"
  proof -
    have "\<bar>round64 k - k\<bar> \<le> \<bar>k\<bar> / 2 ^ 53 + 1 / 2 ^ 1075" by (rule round64_err)
    moreover have "\<bar>k\<bar> / 2 ^ 53 \<le> 1 / 2 ^ 53" using k by (simp add: divide_right_mono)
    ultimately show ?thesis using t by linarith
  qed
  have gen: "\<bar>round64 (round64 d * cap) - d' * cap\<bar> \<le> 1 / 1000"
    if d: "\<bar>d\<bar> \<le> 1003" and dd: "\<bar>d - d'\<bar> \<le> 2 / 2 ^ 53" for d d' :: real
  proof -
    have e1: "\<bar>round64 d - d\<bar> \<le> 1004 / 2 ^ 53"
    proof -
      have "\<bar>round64 d - d\<bar> \<le> \<bar>d\<bar> / 2 ^ 53 + 1 / 2 ^ 1075" by (rule round64_err)
      moreover have "\<bar>d\<bar> / 2 ^ 53 \<le> 1003 / 2 ^ 53" using d by (simp add: divide_right_mono)
      ultimately show ?thesis using t by linarith
    qed
    have a: "\<bar>round64 d\<bar> \<le> 2007"
      by (rule order_trans [OF round64_abs_le]) (use d in simp)
    have m: "\<bar>round64 d * cap\<bar> \<le> 2007 * 10 ^ 9"
      unfolding abs_mult using a cap by (intro mult_mono) simp_all
    have e2: "\<bar>round64 (round64 d * cap) - round64 d * cap\<bar> \<le> (2007 * 10 ^ 9 + 1) / 2 ^ 53"
    proof -
      have "\<bar>round64 (round64 d * cap) - round64 d * cap\<bar>
              \<le> \<bar>round64 d * cap\<bar> / 2 ^ 53 + 1 / 2 ^ 1075" by (rule round64_err)
      moreover have "\<bar>round64 d * cap\<bar> / 2 ^ 53 \<le> 2007 * 10 ^ 9 / 2 ^ 53"
        using m by (simp add: divide_right_mono)
      ultimately show ?thesis using t by (simp add: add_divide_distrib)
    qed
    have "\<bar>round64 d - d'\<bar> \<le> 1006 / 2 ^ 53" using e1 dd by linarith
    then have "\<bar>round64 d - d'\<bar> * \<bar>cap\<bar> \<le> 1006 / 2 ^ 53 * 10 ^ 9"
      using cap by (intro mult_mono) simp_all
    then have e3: "\<bar>round64 d * cap - d' * cap\<bar> \<le> 1006 / 2 ^ 53 * 10 ^ 9"
      by (simp add: abs_mult [symmetric] left_diff_distrib)
    have "\<bar>round64 (round64 d * cap) - d' * cap\<bar>
            \<le> (2007 * 10 ^ 9 + 1) / 2 ^ 53 + 1006 / 2 ^ 53 * 10 ^ 9"
      using e2 e3 by linarith
    then show ?thesis by (rule order_trans) simp
  qed
  have "\<bar>round64 (round64 (round64 k - soc) * cap) - (k - soc) * cap\<bar> \<le> 1 / 1000"
  proof (rule gen)
    show "\<bar>round64 k - soc\<bar> \<le> 1003" using kr soc by linarith
    show "\<bar>round64 k - soc - (k - soc)\<bar> \<le> 2 / 2 ^ 53" using e0 by simp
  qed
  then show "\<bar>round64 (round64 (round64 k - soc) * cap) - (k * cap - soc * cap)\<bar> \<le> 1 / 1000"
    by (simp add: left_diff_distrib)
  have "\<bar>round64 (round64 (soc - round64 k) * cap) - (soc - k) * cap\<bar> \<le> 1 / 1000"
  proof (rule gen)
    show "\<bar>soc - round64 k\<bar> \<le> 1003" using kr soc by linarith
    have "\<bar>soc - round64 k - (soc - k)\<bar> = \<bar>round64 k - k\<bar>" by simp
    then show "\<bar>soc - round64 k - (soc - k)\<bar> \<le> 2 / 2 ^ 53" using e0 by simp
  qed
  then show "\<bar>round64 (round64 (soc - round64 k) * cap) - (soc * cap - k * cap)\<bar> \<le> 1 / 1000"
    by (simp add: left_diff_distrib)
qed

text \<open>
  The unfloored minimum agrees with its floor at 0 exactly when both limits are
  non-negative (the requested power is non-negative in both branches).
\<close>

lemma floor_iff:
  fixes a b c :: real
  assumes "0 \<le> a"
  shows "min a (min b c) = max 0 (min a (min b c)) \<longleftrightarrow> 0 \<le> b \<and> 0 \<le> c"
  using assms by (auto simp: min_def max_def split: if_splits)

text \<open>The dispatch evaluated on three inputs.\<close>

lemma scenario_B_eval:
  "optimize_grid \<lparr> battery_charge_capacity = cc,
                   battery_discharge_capacity = Some (Finite 100),
                   battery_capacity = Some (Finite 300) \<rparr>
     (Finite 40) (Finite 100) (Finite (1 / 4))
   = Inr [(''battery_discharge'', Finite (15 - 1 / 2 ^ 48)), (''grid_import'', Finite 45)]"
  by (simp add: optimize_grid_def Let_def to_float_def py_min3_def round64_minus
      round64_60 round64_0_2 round64_B1 round64_B2 round64_B3)

lemma above_band_eval:
  "optimize_grid (bound_globals 50 100 300) (Finite 100) (Finite 70) (Finite (round64 (9 / 10)))
   = Inr [(''battery_charge'', Finite (- 30 + 1 / 2 ^ 47)),
          (''grid_export'', Finite (60 - 1 / 2 ^ 47))]"
  by (simp add: optimize_grid_def bound_globals_def Let_def to_float_def py_min3_def
      round64_minus round64_30 round64_0_8 round64_0_9 round64_C1 round64_C2 round64_C3)


lemma charge_headroom_half: "charge_headroom (1 / 2) 300 = 90 + 1 / 2 ^ 46"
  by (simp add: charge_headroom_def round64_0_8 round64_D2 round64_D3)

lemma discharge_headroom_quarter: "discharge_headroom (1 / 4) 300 = 15 - 1 / 2 ^ 48"
  by (simp add: discharge_headroom_def round64_0_2 round64_B1 round64_B2)

subsection \<open>The mock records, field by field\<close>

lemma mock_fields:
  "hour (mockDataPoint e h) = h"
  "datetime (mockDataPoint e h) = now e + int h * 3600000"
  "simulated_supply_mw (mockDataPoint e h) =
     max 0 (50 + sin (real h * pi / 12) * 20 + rnd_supply e * 15)"
  "simulated_demand_mw (mockDataPoint e h) = max 0 (base_demand h + rnd_demand e * 10)"
  "net_balance_mw (mockDataPoint e h) =
     50 + sin (real h * pi / 12) * 20 + rnd_supply e * 15 - base_demand h"
  "battery_charge_mwh (mockDataPoint e h) =
     (30 + sin (real h * pi / 12) * 20 + rnd_battery e * 10) * 3"
  "wind_speed (mockDataPoint e h) = 5 + sin (real h * pi / 12) * 5 + rnd_wind_speed e * 3"
  "wind_direction (mockDataPoint e h) =
     180 + sin (real h * pi / 6) * 60 + rnd_wind_direction e * 30"
  by (simp_all add: mockDataPoint_def Let_def)

lemma mock_flows:
  "to_battery_mw (mockDataPoint e h) =
     (if net_balance_mw (mockDataPoint e h) > 0
      then min (net_balance_mw (mockDataPoint e h)) 20 else 0)"
  "from_battery_mw (mockDataPoint e h) =
     (if net_balance_mw (mockDataPoint e h) < 0
      then min \<bar>net_balance_mw (mockDataPoint e h)\<bar> 25 else 0)"
  "to_grid_mw (mockDataPoint e h) =
     (if net_balance_mw (mockDataPoint e h) > 0
      then max 0 (net_balance_mw (mockDataPoint e h) - 5) else 0)"
  "from_grid_mw (mockDataPoint e h) =
     (if net_balance_mw (mockDataPoint e h) < 0
      then max 0 (\<bar>net_balance_mw (mockDataPoint e h)\<bar> - 5) else 0)"
  "status (mockDataPoint e h) =
     (if net_balance_mw (mockDataPoint e h) > 5 then ''Surplus''
      else if net_balance_mw (mockDataPoint e h) < - 5 then ''Deficit'' else ''Balanced'')"
  by (simp_all add: mockDataPoint_def Let_def)

lemma mock_battery_percent:
  "battery_percent (mockDataPoint e h) =
     max 10 (min 95 (30 + sin (real h * pi / 12) * 20 + rnd_battery e * 10))"
  by (simp add: mockDataPoint_def Let_def)

lemma base_demand_range: "60 \<le> base_demand h \<and> base_demand h \<le> 110"
  by (simp add: base_demand_def)

lemma mock_nth: "h < 24 \<Longrightarrow> mockSimulationData env ! h = mockDataPoint (env h) h"
  by (simp add: mockSimulationData_def)

lemma mock_length: "length (mockSimulationData env) = 24"
  by (simp add: mockSimulationData_def)




text \<open>The record of hour 12 when every draw is 0 (\<open>sin \<pi> = 0\<close>).\<close>

lemma mock_noon_zero:
  "net_balance_mw (mockDataPoint (zero_draws 12) 12) = - 35"
  "simulated_supply_mw (mockDataPoint (zero_draws 12) 12) = 50"
  "simulated_demand_mw (mockDataPoint (zero_draws 12) 12) = 85"
  "battery_charge_mwh (mockDataPoint (zero_draws 12) 12) = 90"
  by (simp_all add: mock_fields zero_draws_def base_demand_def)


text \<open>
  Which reading each field of a mock record depends on, besides the hour: none for
  \<open>hour\<close>, the clock for \<open>datetime\<close>, and one draw for each of the others.
\<close>

lemma mock_depends:
  "hour (mockDataPoint e h) = hour (mockDataPoint e' h)"
  "now e = now e' \<Longrightarrow> datetime (mockDataPoint e h) = datetime (mockDataPoint e' h)"
  "rnd_supply e = rnd_supply e' \<Longrightarrow>
     simulated_supply_mw (mockDataPoint e h) = simulated_supply_mw (mockDataPoint e' h)
     \<and> net_balance_mw (mockDataPoint e h) = net_balance_mw (mockDataPoint e' h)
     \<and> to_battery_mw (mockDataPoint e h) = to_battery_mw (mockDataPoint e' h)
     \<and> from_battery_mw (mockDataPoint e h) = from_battery_mw (mockDataPoint e' h)
     \<and> to_grid_mw (mockDataPoint e h) = to_grid_mw (mockDataPoint e' h)
     \<and> from_grid_mw (mockDataPoint e h) = from_grid_mw (mockDataPoint e' h)
     \<and> status (mockDataPoint e h) = status (mockDataPoint e' h)"
  "rnd_battery e = rnd_battery e' \<Longrightarrow>
     battery_charge_mwh (mockDataPoint e h) = battery_charge_mwh (mockDataPoint e' h)
     \<and> battery_percent (mockDataPoint e h) = battery_percent (mockDataPoint e' h)"
  "rnd_demand e = rnd_demand e' \<Longrightarrow>
     simulated_demand_mw (mockDataPoint e h) = simulated_demand_mw (mockDataPoint e' h)"
  "rnd_wind_speed e = rnd_wind_speed e' \<Longrightarrow>
     wind_speed (mockDataPoint e h) = wind_speed (mockDataPoint e' h)"
  "rnd_wind_direction e = rnd_wind_direction e' \<Longrightarrow>
     wind_direction (mockDataPoint e h) = wind_direction (mockDataPoint e' h)"
  by (simp_all add: mock_fields mock_flows mock_battery_percent)

subsection \<open>The request body and the LIVE buffer\<close>

text \<open>The three faults the request does apply.\<close>

lemma request_fault_transforms:
  "multipleTurbineFailure fl \<Longrightarrow>
     turbine_availability (build_requestBody md tc ta bc fl dr) = 0.25"
  "\<not> multipleTurbineFailure fl \<Longrightarrow> turbineFailure fl \<Longrightarrow>
     turbine_availability (build_requestBody md tc ta bc fl dr) = 0.5"
  "\<not> multipleTurbineFailure fl \<Longrightarrow> \<not> turbineFailure fl \<Longrightarrow>
     turbine_availability (build_requestBody md tc ta bc fl dr) = ta"
  "batteryFault fl \<Longrightarrow> battery_capacity_mwh (build_requestBody md tc ta bc fl dr) = bc / 2"
  "\<not> batteryFault fl \<Longrightarrow> battery_capacity_mwh (build_requestBody md tc ta bc fl dr) = bc"
  by (simp_all add: build_requestBody_def)

lemma slice_from_last_23: "slice_from (- 23) xs = drop (length xs - 23) xs"
proof -
  have "nat (max (int (length xs) + - 23) 0) = length xs - 23" by linarith
  then show ?thesis by (simp add: slice_from_def Let_def)
qed

lemma update_live:
  "length simulationData > 0 \<Longrightarrow> length ds > 0 \<Longrightarrow>
   update_simulationData LIVE simulationData (Some ds) prev
     = slice_from (- 23) prev @ [last ds]"
  by (cases ds rule: rev_cases) (simp_all add: update_simulationData_def Let_def)

lemma update_live_empty:
  "length simulationData = 0 \<Longrightarrow> length ds > 0 \<Longrightarrow>
   update_simulationData LIVE simulationData (Some ds) prev = ds"
  by (simp add: update_simulationData_def)

lemma update_no_records:
  "update_simulationData md simulationData None prev = prev"
  "update_simulationData md simulationData (Some []) prev = prev"
  by (simp_all add: update_simulationData_def)

subsection \<open>Alert groups\<close>

lemma alert_groups_single:
  "length (criticalAlerts [a]) + length (warningAlerts [a]) + length (infoAlerts [a]) = 1"
  by (simp add: criticalAlerts_def warningAlerts_def infoAlerts_def)

section \<open>The claims\<close>

subsection \<open>C1: energy balance\<close>




subsection \<open>C2: the applied battery power\<close>

text \<open>
  Against C2 as stated: at supply 100, demand 70 and a state of charge of 0.9 (270 of
  300 MWh, above the high threshold) the headroom is negative; the spec's formula floors
  the applied charge at 0, the code returns \<open>-30 + 1 / 2 ^ 47\<close> (-29.999999999999993).
\<close>

theorem applied_power_counterexample:
  "result_flow (optimize_grid (bound_globals 50 100 300) (Finite 100) (Finite 70)
                  (Finite (round64 (9 / 10)))) ''battery_charge''
     = Some (- 30 + 1 / 2 ^ 47)
   \<and> (- 30 + 1 / 2 ^ 47 :: real) < 0
   \<and> spec_applied_power (100 - 70) 50 (8 / 10 * 300 - 9 / 10 * 300) 1 = 0"
  by (simp add: above_band_eval result_flow_def flow_simps spec_applied_power_def)

text \<open>
  C2, amended. A call of \<open>optimize_grid\<close> never raises once the three names it reads are
  bound to floats, whatever the floats passed (infinities and NaNs included). On finite
  inputs of ordinary size the applied battery power is the minimum of the requested
  power, the power limit and the headroom over one hour, with the thresholds fixed at
  0.8 and 0.2 and no floor: on a surplus the charge is
  \<open>min(surplus, charge limit, (0.8 - soc) * capacity)\<close>, otherwise the discharge is
  \<open>min(deficit, discharge limit, (soc - 0.2) * capacity)\<close>, where surplus and headroom
  are the rounded values the code computes. The headroom so computed is within 0.001 MWh
  of \<open>0.8 * capacity - soc * capacity\<close> (of \<open>soc * capacity - 0.2 * capacity\<close>), and the
  applied power equals the spec's floored value of the same three numbers exactly when
  the power limit and the computed headroom are both non-negative.
\<close>

theorem applied_power_unfloored:
  "(battery_charge_capacity g \<noteq> None \<and> battery_discharge_capacity g \<noteq> None
      \<and> battery_capacity g \<noteq> None \<longrightarrow>
      (\<exists>d. optimize_grid g x y z = Inr d))
   \<and> (within_range cc dc cap supply demand soc \<longrightarrow>
        (0 < round64 (supply - demand) \<longrightarrow>
           optimize_grid (bound_globals cc dc cap) (Finite supply) (Finite demand) (Finite soc) =
             Inr [(''battery_charge'',
                    Finite (min (round64 (supply - demand)) (min cc (charge_headroom soc cap)))),
                  (''grid_export'',
                    Finite (round64 (round64 (supply - demand)
                      - min (round64 (supply - demand)) (min cc (charge_headroom soc cap)))))]
           \<and> (min (round64 (supply - demand)) (min cc (charge_headroom soc cap))
                 = spec_applied_power (round64 (supply - demand)) cc (charge_headroom soc cap) 1
               \<longleftrightarrow> 0 \<le> cc \<and> 0 \<le> charge_headroom soc cap))
      \<and> (\<not> 0 < round64 (supply - demand) \<longrightarrow>
           optimize_grid (bound_globals cc dc cap) (Finite supply) (Finite demand) (Finite soc) =
             Inr [(''battery_discharge'',
                    Finite (min \<bar>round64 (supply - demand)\<bar>
                              (min dc (discharge_headroom soc cap)))),
                  (''grid_import'',
                    Finite (round64 (\<bar>round64 (supply - demand)\<bar>
                      - min \<bar>round64 (supply - demand)\<bar>
                          (min dc (discharge_headroom soc cap)))))]
           \<and> (min \<bar>round64 (supply - demand)\<bar> (min dc (discharge_headroom soc cap))
                 = spec_applied_power \<bar>round64 (supply - demand)\<bar> dc
                     (discharge_headroom soc cap) 1
               \<longleftrightarrow> 0 \<le> dc \<and> 0 \<le> discharge_headroom soc cap))
      \<and> \<bar>charge_headroom soc cap - (8 / 10 * cap - soc * cap)\<bar> \<le> 1 / 1000
      \<and> \<bar>discharge_headroom soc cap - (soc * cap - 2 / 10 * cap)\<bar> \<le> 1 / 1000)"
proof (intro conjI impI)
  assume "battery_charge_capacity g \<noteq> None \<and> battery_discharge_capacity g \<noteq> None
      \<and> battery_capacity g \<noteq> None"
  then show "\<exists>d. optimize_grid g x y z = Inr d"
    by (intro never_raises) simp_all
next
  assume r: "within_range cc dc cap supply demand soc" and s: "0 < round64 (supply - demand)"
  show "optimize_grid (bound_globals cc dc cap) (Finite supply) (Finite demand) (Finite soc) =
             Inr [(''battery_charge'',
                    Finite (min (round64 (supply - demand)) (min cc (charge_headroom soc cap)))),
                  (''grid_export'',
                    Finite (round64 (round64 (supply - demand)
                      - min (round64 (supply - demand)) (min cc (charge_headroom soc cap)))))]"
    by (rule optimize_grid_surplus [OF r s])
  have "0 \<le> round64 (supply - demand)" using s by simp
  from floor_iff [OF this, of cc "charge_headroom soc cap"]
  show "min (round64 (supply - demand)) (min cc (charge_headroom soc cap))
          = spec_applied_power (round64 (supply - demand)) cc (charge_headroom soc cap) 1
        \<longleftrightarrow> 0 \<le> cc \<and> 0 \<le> charge_headroom soc cap"
    unfolding spec_applied_power_def by simp
next
  assume r: "within_range cc dc cap supply demand soc"
    and s: "\<not> 0 < round64 (supply - demand)"
  show "optimize_grid (bound_globals cc dc cap) (Finite supply) (Finite demand) (Finite soc) =
             Inr [(''battery_discharge'',
                    Finite (min \<bar>round64 (supply - demand)\<bar>
                              (min dc (discharge_headroom soc cap)))),
                  (''grid_import'',
                    Finite (round64 (\<bar>round64 (supply - demand)\<bar>
                      - min \<bar>round64 (supply - demand)\<bar>
                          (min dc (discharge_headroom soc cap)))))]"
    by (rule optimize_grid_deficit [OF r s])
  have "0 \<le> \<bar>round64 (supply - demand)\<bar>" by simp
  from floor_iff [OF this, of dc "discharge_headroom soc cap"]
  show "min \<bar>round64 (supply - demand)\<bar> (min dc (discharge_headroom soc cap))
          = spec_applied_power \<bar>round64 (supply - demand)\<bar> dc (discharge_headroom soc cap) 1
        \<longleftrightarrow> 0 \<le> dc \<and> 0 \<le> discharge_headroom soc cap"
    unfolding spec_applied_power_def by simp
next
  assume r: "within_range cc dc cap supply demand soc"
  have b: "\<bar>soc\<bar> \<le> 1000" "\<bar>cap\<bar> \<le> 10 ^ 9" using r by (simp_all add: within_range_def)
  have k8: "\<bar>8 / 10 :: real\<bar> \<le> 1" and k2: "\<bar>2 / 10 :: real\<bar> \<le> 1" by simp_all
  show "\<bar>charge_headroom soc cap - (8 / 10 * cap - soc * cap)\<bar> \<le> 1 / 1000"
    unfolding charge_headroom_def by (rule headroom_close(1) [OF b k8])
  show "\<bar>discharge_headroom soc cap - (soc * cap - 2 / 10 * cap)\<bar> \<le> 1 / 1000"
    unfolding discharge_headroom_def by (rule headroom_close(2) [OF b k2])
qed

text \<open>
  The three names bound, with an infinity and NaNs passed; a surplus inside the band
  (supply 100, demand 70, half charge: charge 30, export 0) and a deficit inside the band
  (supply 40, demand 100, a quarter charge: discharge \<open>15 - 1 / 2 ^ 48\<close>, import 45).
\<close>

theorem applied_power_unfloored_witness:
  "battery_charge_capacity (bound_globals 50 100 300) \<noteq> None
   \<and> battery_discharge_capacity (bound_globals 50 100 300) \<noteq> None
   \<and> battery_capacity (bound_globals 50 100 300) \<noteq> None
   \<and> (\<exists>d. optimize_grid (bound_globals 50 100 300) PosInf NaN NegInf = Inr d)
   \<and> within_range 50 100 300 100 70 (1 / 2)
   \<and> 0 < round64 (100 - 70)
   \<and> optimize_grid (bound_globals 50 100 300) (Finite 100) (Finite 70) (Finite (1 / 2))
        = Inr [(''battery_charge'', Finite 30), (''grid_export'', Finite 0)]
   \<and> spec_applied_power (round64 (100 - 70)) 50 (charge_headroom (1 / 2) 300) 1 = 30
   \<and> within_range 50 100 300 40 100 (1 / 4)
   \<and> \<not> 0 < round64 (40 - 100)
   \<and> optimize_grid (bound_globals 50 100 300) (Finite 40) (Finite 100) (Finite (1 / 4))
        = Inr [(''battery_discharge'', Finite (15 - 1 / 2 ^ 48)), (''grid_import'', Finite 45)]
   \<and> spec_applied_power \<bar>round64 (40 - 100)\<bar> 100 (discharge_headroom (1 / 4) 300) 1
        = 15 - 1 / 2 ^ 48"
proof -
  have g: "battery_charge_capacity (bound_globals 50 100 300) \<noteq> None
   \<and> battery_discharge_capacity (bound_globals 50 100 300) \<noteq> None
   \<and> battery_capacity (bound_globals 50 100 300) \<noteq> None"
    by (simp add: bound_globals_def)
  have r1: "within_range 50 100 300 100 70 (1 / 2)" and r2: "within_range 50 100 300 40 100 (1 / 4)"
    by (simp_all add: within_range_def)
  have s1: "round64 (100 - 70) = 30" by (simp add: round64_30)
  have s2: "round64 (40 - 100) = - 60" by (simp add: round64_minus round64_60)
  note t0 = applied_power_unfloored [of "bound_globals 50 100 300" PosInf NaN NegInf
      50 100 300 100 70 "1 / 2"]
  note t1 = applied_power_unfloored [of "bound_globals 50 100 300" PosInf NaN NegInf
      50 100 300 40 100 "1 / 4"]
  have a: "\<exists>d. optimize_grid (bound_globals 50 100 300) PosInf NaN NegInf = Inr d"
    using t0 g by blast
  have p1: "0 < round64 (100 - 70)" unfolding s1 by simp
  have p2: "\<not> 0 < round64 (40 - 100)" unfolding s2 by simp
  from t0 r1 p1
  have c0: "optimize_grid (bound_globals 50 100 300) (Finite 100) (Finite 70) (Finite (1 / 2))
        = Inr [(''battery_charge'',
                 Finite (min (round64 (100 - 70)) (min 50 (charge_headroom (1 / 2) 300)))),
               (''grid_export'',
                 Finite (round64 (round64 (100 - 70)
                   - min (round64 (100 - 70)) (min 50 (charge_headroom (1 / 2) 300)))))]"
    by blast
  have m1: "min (round64 (100 - 70)) (min 50 (charge_headroom (1 / 2) 300)) = 30"
    unfolding s1 charge_headroom_half by simp
  have c: "optimize_grid (bound_globals 50 100 300) (Finite 100) (Finite 70) (Finite (1 / 2))
        = Inr [(''battery_charge'', Finite 30), (''grid_export'', Finite 0)]"
    unfolding c0 m1 unfolding s1 by (simp add: round64_0)
  have c': "spec_applied_power (round64 (100 - 70)) 50 (charge_headroom (1 / 2) 300) 1 = 30"
    unfolding s1 charge_headroom_half spec_applied_power_def by simp
  from t1 r2 p2
  have d0: "optimize_grid (bound_globals 50 100 300) (Finite 40) (Finite 100) (Finite (1 / 4))
        = Inr [(''battery_discharge'',
                 Finite (min \<bar>round64 (40 - 100)\<bar> (min 100 (discharge_headroom (1 / 4) 300)))),
               (''grid_import'',
                 Finite (round64 (\<bar>round64 (40 - 100)\<bar>
                   - min \<bar>round64 (40 - 100)\<bar> (min 100 (discharge_headroom (1 / 4) 300)))))]"
    by blast
  have m2: "min \<bar>round64 (40 - 100)\<bar> (min 100 (discharge_headroom (1 / 4) 300))
              = 15 - 1 / 2 ^ 48"
    unfolding s2 discharge_headroom_quarter by simp
  have d: "optimize_grid (bound_globals 50 100 300) (Finite 40) (Finite 100) (Finite (1 / 4))
        = Inr [(''battery_discharge'', Finite (15 - 1 / 2 ^ 48)), (''grid_import'', Finite 45)]"
    unfolding d0 m2 unfolding s2 by (simp add: round64_B3)
  have d': "spec_applied_power \<bar>round64 (40 - 100)\<bar> 100 (discharge_headroom (1 / 4) 300) 1
        = 15 - 1 / 2 ^ 48"
    unfolding s2 discharge_headroom_quarter spec_applied_power_def by simp
  show ?thesis using g a r1 p1 c c' r2 p2 d d' by blast
qed

subsection \<open>C3: status and net balance\<close>

text \<open>
  C3. In every record of the mock sequence the status is Surplus exactly when
  \<open>net_balance_mw\<close> exceeds 5, Deficit exactly when it is below -5, and Balanced in
  every other case.
\<close>

theorem status_consistency:
  "h < 24 \<Longrightarrow>
   (status (mockSimulationData env ! h) = ''Surplus''
      \<longleftrightarrow> net_balance_mw (mockSimulationData env ! h) > 5)
   \<and> (status (mockSimulationData env ! h) = ''Deficit''
      \<longleftrightarrow> net_balance_mw (mockSimulationData env ! h) < - 5)
   \<and> (status (mockSimulationData env ! h) = ''Balanced''
      \<longleftrightarrow> \<not> net_balance_mw (mockSimulationData env ! h) > 5
          \<and> \<not> net_balance_mw (mockSimulationData env ! h) < - 5)"
  by (simp add: mock_nth mock_flows)

theorem status_consistency_witness:
  "(12::nat) < 24
   \<and> net_balance_mw (mockSimulationData zero_draws ! 12) < - 5
   \<and> status (mockSimulationData zero_draws ! 12) = ''Deficit''
   \<and> status (mockSimulationData zero_draws ! 12) \<noteq> ''Surplus''
   \<and> status (mockSimulationData zero_draws ! 12) \<noteq> ''Balanced''"
proof -
  have n: "net_balance_mw (mockSimulationData zero_draws ! 12) < - 5"
    by (simp add: mock_nth mock_noon_zero)
  show ?thesis
    using n status_consistency [of 12 zero_draws] by simp
qed

subsection \<open>C4: Scenario B\<close>

text \<open>
  Against C4 as stated: with supply 40, demand 100, capacity 300, a state of charge of
  0.25 (75 of 300 MWh) and a discharge limit of 100, the discharge the code returns is
  \<open>15 - 1 / 2 ^ 48\<close> (14.999999999999996), not 15: the float \<open>0.2\<close> is slightly above 2/10,
  so \<open>(0.25 - 0.2) * 300\<close> falls below 15.
\<close>

theorem scenario_B_counterexample:
  "result_flow (optimize_grid (bound_globals 50 100 300) (Finite 40) (Finite 100)
                  (Finite (1 / 4))) ''battery_discharge''
     = Some (15 - 1 / 2 ^ 48)
   \<and> result_flow (optimize_grid (bound_globals 50 100 300) (Finite 40) (Finite 100)
                  (Finite (1 / 4))) ''battery_discharge''
     \<noteq> Some 15"
  by (simp add: bound_globals_def scenario_B_eval result_flow_def flow_simps)

text \<open>
  C4, amended. With supply 40 MW, demand 100 MW, capacity 300 MWh, a state of charge of
  0.25 (75 of 300 MWh), the fixed low threshold 0.2, a discharge limit of 100 MW and
  any charge limit (bound or not), the dispatch returns a discharge of \<open>15 - 1 / 2 ^ 48\<close>
  MW, which is within \<open>1 / 10 ^ 14\<close> of 15, and an import of exactly 45 MW. The returned
  dict has these two entries only: the function computes no new state of charge.
\<close>

theorem scenario_B_discharge_limited:
  "optimize_grid \<lparr> battery_charge_capacity = cc,
                   battery_discharge_capacity = Some (Finite 100),
                   battery_capacity = Some (Finite 300) \<rparr>
     (Finite 40) (Finite 100) (Finite (1 / 4))
   = Inr [(''battery_discharge'', Finite (15 - 1 / 2 ^ 48)), (''grid_import'', Finite 45)]
   \<and> \<bar>(15 - 1 / 2 ^ 48) - 15 :: real\<bar> \<le> 1 / 10 ^ 14"
  by (simp add: scenario_B_eval)

subsection \<open>C5: faults in the request\<close>

text \<open>
  C5 fails for the grid issue. The request body never reads the \<open>gridIssue\<close> flag and has
  no \<open>grid_available\<close> member: selecting the fault leaves the request as it is, for every
  state of the page and in particular for the default state (MANUAL, 50 turbines,
  availability 0.95, 300 MWh) with only that fault selected.
\<close>

theorem grid_issue_ignored_by_request:
  "build_requestBody md turbineCount turbineAvailability batteryCapacity
       (fl\<lparr>gridIssue := True\<rparr>) dateRange
     = build_requestBody md turbineCount turbineAvailability batteryCapacity
       (fl\<lparr>gridIssue := False\<rparr>) dateRange
   \<and> build_requestBody MANUAL 50 0.95 300
        \<lparr> turbineFailure = False, multipleTurbineFailure = False, gridIssue = True,
          batteryFault = False \<rparr>
        \<lparr> range_from = None, range_to = None \<rparr>
     = build_requestBody MANUAL 50 0.95 300
        \<lparr> turbineFailure = False, multipleTurbineFailure = False, gridIssue = False,
          batteryFault = False \<rparr>
        \<lparr> range_from = None, range_to = None \<rparr>"
  by (simp add: build_requestBody_def)

subsection \<open>C6: state of charge within bounds\<close>

text \<open>
  C6. In every record of the mock sequence, with draws in range, the battery charge
  lies between 0 and the capacity of 300 MWh.
\<close>

theorem soc_within_bounds:
  "h < 24 \<Longrightarrow> valid_draws (env h) \<Longrightarrow>
   0 \<le> battery_charge_mwh (mockSimulationData env ! h)
   \<and> battery_charge_mwh (mockSimulationData env ! h) \<le> 300"
proof -
  assume h: "h < 24" and v: "valid_draws (env h)"
  have lo: "- 1 \<le> sin (real h * pi / 12)" by (rule sin_ge_minus_one)
  have hi: "sin (real h * pi / 12) \<le> 1" by (rule sin_le_one)
  have r: "0 \<le> rnd_battery (env h)" "rnd_battery (env h) < 1"
    using v by (simp_all add: valid_draws_def)
  have c: "battery_charge_mwh (mockSimulationData env ! h)
          = (30 + sin (real h * pi / 12) * 20 + rnd_battery (env h) * 10) * 3"
    using h by (simp add: mock_nth mock_fields)
  have "10 \<le> 30 + sin (real h * pi / 12) * 20 + rnd_battery (env h) * 10"
    using lo r by linarith
  moreover have "30 + sin (real h * pi / 12) * 20 + rnd_battery (env h) * 10 \<le> 60"
    using hi r by linarith
  ultimately show ?thesis unfolding c by simp
qed

theorem soc_within_bounds_witness:
  "(12::nat) < 24 \<and> valid_draws (zero_draws 12)
   \<and> battery_charge_mwh (mockSimulationData zero_draws ! 12) = 90
   \<and> 0 \<le> battery_charge_mwh (mockSimulationData zero_draws ! 12)
   \<and> battery_charge_mwh (mockSimulationData zero_draws ! 12) \<le> 300"
proof -
  have v: "(12::nat) < 24" "valid_draws (zero_draws 12)"
    by (simp_all add: valid_draws_def zero_draws_def)
  have e: "battery_charge_mwh (mockSimulationData zero_draws ! 12) = 90"
    by (simp add: mock_nth mock_noon_zero)
  show ?thesis
    using v e soc_within_bounds [of 12 zero_draws] by blast
qed

subsection \<open>C7: determinism\<close>

text \<open>
  Against C7 as stated: the generation takes no input besides the hour index, yet two
  evaluations that draw different numbers (every draw 0, every draw 1/2) already differ
  in the supply of hour 0, so the two sequences differ.
\<close>

theorem mock_not_deterministic_counterexample:
  "simulated_supply_mw (mockSimulationData zero_draws ! 0)
     \<noteq> simulated_supply_mw (mockSimulationData half_draws ! 0)
   \<and> mockSimulationData zero_draws \<noteq> mockSimulationData half_draws"
proof -
  have "simulated_supply_mw (mockSimulationData zero_draws ! 0)
     \<noteq> simulated_supply_mw (mockSimulationData half_draws ! 0)"
    by (simp add: mock_nth mock_fields zero_draws_def half_draws_def)
  then show ?thesis by auto
qed

text \<open>
  C7, amended. The mock generation is not a function of its hour inputs: each record
  also reads the clock once and draws five pseudo-random numbers. Two evaluations
  always agree in the number of records (24) and in the hour of each record. They
  agree in another field of a record whenever they agree in the one reading that field
  is computed from: the clock for \<open>datetime\<close>; the supply draw for the supply, the net
  balance, the four flows and the status; the battery draw for the battery charge and
  percentage; the demand draw for the demand; the two wind draws for the wind speed
  and direction. So two evaluations that read the same clock values and draw the same
  numbers at every hour yield identical results in every field of every record.
\<close>

theorem mock_fields_depend_on_draws:
  "length (mockSimulationData env) = 24
   \<and> length (mockSimulationData env') = 24
   \<and> ((\<forall>h<24. env h = env' h) \<longrightarrow> mockSimulationData env = mockSimulationData env')
   \<and> (h < 24 \<longrightarrow>
        hour (mockSimulationData env ! h) = hour (mockSimulationData env' ! h)
      \<and> (now (env h) = now (env' h) \<longrightarrow>
            datetime (mockSimulationData env ! h) = datetime (mockSimulationData env' ! h))
      \<and> (rnd_supply (env h) = rnd_supply (env' h) \<longrightarrow>
            simulated_supply_mw (mockSimulationData env ! h)
              = simulated_supply_mw (mockSimulationData env' ! h)
          \<and> net_balance_mw (mockSimulationData env ! h)
              = net_balance_mw (mockSimulationData env' ! h)
          \<and> to_battery_mw (mockSimulationData env ! h)
              = to_battery_mw (mockSimulationData env' ! h)
          \<and> from_battery_mw (mockSimulationData env ! h)
              = from_battery_mw (mockSimulationData env' ! h)
          \<and> to_grid_mw (mockSimulationData env ! h)
              = to_grid_mw (mockSimulationData env' ! h)
          \<and> from_grid_mw (mockSimulationData env ! h)
              = from_grid_mw (mockSimulationData env' ! h)
          \<and> status (mockSimulationData env ! h) = status (mockSimulationData env' ! h))
      \<and> (rnd_battery (env h) = rnd_battery (env' h) \<longrightarrow>
            battery_charge_mwh (mockSimulationData env ! h)
              = battery_charge_mwh (mockSimulationData env' ! h)
          \<and> battery_percent (mockSimulationData env ! h)
              = battery_percent (mockSimulationData env' ! h))
      \<and> (rnd_demand (env h) = rnd_demand (env' h) \<longrightarrow>
            simulated_demand_mw (mockSimulationData env ! h)
              = simulated_demand_mw (mockSimulationData env' ! h))
      \<and> (rnd_wind_speed (env h) = rnd_wind_speed (env' h) \<longrightarrow>
            wind_speed (mockSimulationData env ! h) = wind_speed (mockSimulationData env' ! h))
      \<and> (rnd_wind_direction (env h) = rnd_wind_direction (env' h) \<longrightarrow>
            wind_direction (mockSimulationData env ! h)
              = wind_direction (mockSimulationData env' ! h)))"
proof -
  have seq: "(\<forall>h<24. env h = env' h) \<longrightarrow> mockSimulationData env = mockSimulationData env'"
    by (simp add: mockSimulationData_def)
  show ?thesis
  proof (cases "h < 24")
    case True
    note n = mock_nth [OF True, of env] mock_nth [OF True, of env']
    show ?thesis
      unfolding n
      using seq mock_length [of env] mock_length [of env']
        mock_depends [where e = "env h" and e' = "env' h" and h = h]
      by blast
  next
    case False
    then show ?thesis
      using seq mock_length [of env] mock_length [of env'] by blast
  qed
qed

text \<open>
  Two evaluations at hour 12 that differ in the demand draw only: they agree in every
  field but the demand.
\<close>

theorem mock_fields_depend_on_draws_witness:
  "(12::nat) < 24
   \<and> now (zero_draws 12) = now (demand_draws 12)
   \<and> rnd_supply (zero_draws 12) = rnd_supply (demand_draws 12)
   \<and> rnd_battery (zero_draws 12) = rnd_battery (demand_draws 12)
   \<and> rnd_wind_speed (zero_draws 12) = rnd_wind_speed (demand_draws 12)
   \<and> rnd_wind_direction (zero_draws 12) = rnd_wind_direction (demand_draws 12)
   \<and> rnd_demand (zero_draws 12) \<noteq> rnd_demand (demand_draws 12)
   \<and> hour (mockSimulationData zero_draws ! 12) = hour (mockSimulationData demand_draws ! 12)
   \<and> datetime (mockSimulationData zero_draws ! 12)
        = datetime (mockSimulationData demand_draws ! 12)
   \<and> net_balance_mw (mockSimulationData zero_draws ! 12)
        = net_balance_mw (mockSimulationData demand_draws ! 12)
   \<and> status (mockSimulationData zero_draws ! 12) = status (mockSimulationData demand_draws ! 12)
   \<and> battery_charge_mwh (mockSimulationData zero_draws ! 12)
        = battery_charge_mwh (mockSimulationData demand_draws ! 12)
   \<and> wind_speed (mockSimulationData zero_draws ! 12)
        = wind_speed (mockSimulationData demand_draws ! 12)
   \<and> simulated_demand_mw (mockSimulationData zero_draws ! 12)
        \<noteq> simulated_demand_mw (mockSimulationData demand_draws ! 12)"
proof -
  have e: "now (zero_draws 12) = now (demand_draws 12)"
    "rnd_supply (zero_draws 12) = rnd_supply (demand_draws 12)"
    "rnd_battery (zero_draws 12) = rnd_battery (demand_draws 12)"
    "rnd_wind_speed (zero_draws 12) = rnd_wind_speed (demand_draws 12)"
    "rnd_wind_direction (zero_draws 12) = rnd_wind_direction (demand_draws 12)"
    "rnd_demand (zero_draws 12) \<noteq> rnd_demand (demand_draws 12)"
    by (simp_all add: zero_draws_def demand_draws_def)
  have d: "simulated_demand_mw (mockSimulationData zero_draws ! 12)
        \<noteq> simulated_demand_mw (mockSimulationData demand_draws ! 12)"
    by (simp add: mock_nth mock_fields zero_draws_def demand_draws_def base_demand_def)
  have h: "(12::nat) < 24" by simp
  note t = mock_fields_depend_on_draws [of zero_draws demand_draws 12]
  show ?thesis
    using h e d t by (intro conjI) blast+
qed

subsection \<open>C8: the fields of a record\<close>

text \<open>
  C8. Every record carries exactly the fourteen fields the external interface
  enumerates, under those names and no others.
\<close>

theorem record_field_names:
  "map fst (toObject p) = spec_record_fields
   \<and> distinct (map fst (toObject p))
   \<and> length (toObject p) = 14"
  by (simp add: toObject_def spec_record_fields_def)

subsection \<open>C9: the LIVE buffer\<close>

text \<open>
  Against C9 as stated: a live update whose handler saw an empty buffer takes the
  branch that replaces the buffer by the whole response; with a response of 30 records
  the new buffer holds 30, although the previous one held none.
\<close>

theorem live_buffer_unbounded_counterexample:
  "length ([] :: nat list) \<le> 24
   \<and> update_simulationData LIVE [] (Some [0..<30]) [] = [0..<30]
   \<and> \<not> length (update_simulationData LIVE [] (Some [0..<30]) ([] :: nat list)) \<le> 24"
  by (simp add: update_simulationData_def)

text \<open>
  C9, amended. In LIVE mode, for every update whose handler saw a non-empty displayed
  buffer: if the previous buffer holds at most 24 records, so does the new one, which
  for a response with records is the 23 most recent previous records plus the last
  record of the response. An update whose handler saw an empty buffer replaces the
  buffer by the response, whatever its length.
\<close>

theorem live_buffer_bounded:
  "length prev \<le> 24 \<Longrightarrow>
   (length simulationData > 0 \<longrightarrow>
      length (update_simulationData LIVE simulationData resp prev) \<le> 24)
   \<and> (length simulationData > 0 \<and> length ds > 0 \<longrightarrow>
      update_simulationData LIVE simulationData (Some ds) prev
        = drop (length prev - 23) prev @ [last ds])
   \<and> (length simulationData = 0 \<and> length ds > 0 \<longrightarrow>
      update_simulationData LIVE simulationData (Some ds) prev = ds)"
proof (intro conjI impI)
  assume p: "length prev \<le> 24" and s: "0 < length simulationData"
  show "length (update_simulationData LIVE simulationData resp prev) \<le> 24"
  proof (cases resp)
    case None
    then show ?thesis using p by (simp add: update_no_records)
  next
    case (Some ds)
    show ?thesis
    proof (cases "ds = []")
      case True
      then show ?thesis using p Some by (simp add: update_no_records)
    next
      case False
      then show ?thesis using p s Some by (simp add: update_live slice_from_last_23)
    qed
  qed
next
  assume "0 < length simulationData \<and> 0 < length ds"
  then show "update_simulationData LIVE simulationData (Some ds) prev
        = drop (length prev - 23) prev @ [last ds]"
    by (simp add: update_live slice_from_last_23)
next
  assume "length simulationData = 0 \<and> 0 < length ds"
  then show "update_simulationData LIVE simulationData (Some ds) prev = ds"
    by (simp add: update_live_empty)
qed

theorem live_buffer_bounded_witness:
  "length (replicate 24 (1::nat)) \<le> 24 \<and> length [0::nat] > 0 \<and> length [7::nat] > 0
   \<and> length (update_simulationData LIVE [0] (Some [7]) (replicate 24 (1::nat))) \<le> 24
   \<and> update_simulationData LIVE [0] (Some [7]) (replicate 24 (1::nat))
        = replicate 23 1 @ [7]
   \<and> length ([] :: nat list) = 0
   \<and> update_simulationData LIVE [] (Some [7]) (replicate 24 (1::nat)) = [7]"
  using live_buffer_bounded [of "replicate 24 1" "[0::nat]" "Some [7]" "[7]"]
    live_buffer_bounded [of "replicate 24 1" "[]::nat list" "Some [7]" "[7]"]
  by simp

subsection \<open>C10: the alert groups\<close>

text \<open>
  C10. For every list of alerts, whatever their level strings, the critical, warning
  and info groups of the header partition it: together they hold each alert exactly
  once, their sizes sum to the number of alerts, and no alert is in two groups.
\<close>

theorem alert_groups_partition:
  "mset (criticalAlerts alerts) + mset (warningAlerts alerts) + mset (infoAlerts alerts)
     = mset alerts
   \<and> length (criticalAlerts alerts) + length (warningAlerts alerts)
       + length (infoAlerts alerts) = length alerts
   \<and> set (criticalAlerts alerts) \<inter> set (warningAlerts alerts) = {}
   \<and> set (criticalAlerts alerts) \<inter> set (infoAlerts alerts) = {}
   \<and> set (warningAlerts alerts) \<inter> set (infoAlerts alerts) = {}"
proof (intro conjI)
  show m: "mset (criticalAlerts alerts) + mset (warningAlerts alerts)
             + mset (infoAlerts alerts) = mset alerts"
    by (induction alerts)
       (auto simp: criticalAlerts_def warningAlerts_def infoAlerts_def)
  have "size (mset (criticalAlerts alerts) + mset (warningAlerts alerts)
             + mset (infoAlerts alerts)) = size (mset alerts)"
    by (simp only: m)
  then show "length (criticalAlerts alerts) + length (warningAlerts alerts)
       + length (infoAlerts alerts) = length alerts"
    by simp
  show "set (criticalAlerts alerts) \<inter> set (warningAlerts alerts) = {}"
    by (auto simp: criticalAlerts_def warningAlerts_def)
  show "set (criticalAlerts alerts) \<inter> set (infoAlerts alerts) = {}"
    by (auto simp: criticalAlerts_def infoAlerts_def)
  show "set (warningAlerts alerts) \<inter> set (infoAlerts alerts) = {}"
    by (auto simp: warningAlerts_def infoAlerts_def)
qed

theorem alert_groups_partition_witness:
  "length (criticalAlerts sample_alerts) = 1
   \<and> length (warningAlerts sample_alerts) = 1
   \<and> length (infoAlerts sample_alerts) = 2
   \<and> length (criticalAlerts sample_alerts) + length (warningAlerts sample_alerts)
       + length (infoAlerts sample_alerts) = length sample_alerts"
  using alert_groups_partition [of sample_alerts]
  by (simp add: sample_alerts_def criticalAlerts_def warningAlerts_def infoAlerts_def)

end
